theory Spec2Isabelle
  imports Complex_Main
begin

section \<open>Values shared by the two modules\<close>

text \<open>
  JavaScript numbers are read as reals. \<open>Point3d\<close>, \<open>Vector3d\<close> and \<open>Range3d\<close> of the
  geometry library are plain data: a point (or vector) has three coordinates, a range
  has a low and a high corner.
\<close>

record point3d =
  px :: real
  py :: real
  pz :: real

record range3d =
  low :: point3d
  high :: point3d

text \<open>
  What a \<open>throw\<close> (or a rejected promise) carries. \<open>TypeError\<close> is the error of the
  language itself (reading a property of \<open>undefined\<close> or \<open>null\<close>), \<open>HostError\<close> an
  \<open>Error\<close> raised by the host framework with its message.
\<close>

datatype jsval =
    JUndefined
  | JNull
  | JBool bool
  | JNum real
  | JStr string
  | JArr "jsval list"
  | JObj "(string \<times> jsval) list"

datatype exn = TypeError | HostError string | Thrown jsval

section \<open>range-decorator.ts\<close>

text \<open>
  Instances of \<open>RangeDecoration\<close> live in a store, so that "the same instance" is equality
  of references. \<open>_removeDecorationListener\<close> is either \<open>undefined\<close> or the function that
  \<open>addDecorator\<close> returned, which drops the decorator it was created for.
\<close>

type_synonym ref = nat

record rangeDecoration =
  extents_field :: range3d
  removeDecorationListener :: "ref option"

record world =
  objects :: "ref \<Rightarrow> rangeDecoration option"
  nextRef :: ref
  decorator_static :: "ref option"
  viewManagerDecorators :: "ref list"

definition initialWorld :: world where
  "initialWorld =
     \<lparr>objects = (\<lambda>_. None), nextRef = 0, decorator_static = None, viewManagerDecorators = []\<rparr>"

text \<open>
  The view manager belongs to the host framework. It keeps the list of registered
  decorators: \<open>addDecorator\<close> refuses a decorator that is already registered and appends
  any other, \<open>dropDecorator\<close> removes the decorator when it is there.
\<close>

definition addDecorator :: "ref \<Rightarrow> ref list \<Rightarrow> exn + ref list" where
  "addDecorator d ds =
     (if d \<in> set ds then Inl (HostError ''decorator already registered'') else Inr (ds @ [d]))"

definition dropDecorator :: "ref \<Rightarrow> ref list \<Rightarrow> ref list" where
  "dropDecorator d ds = remove1 d ds"

definition updateDecorationListener :: "bool \<Rightarrow> ref \<Rightarrow> world \<Rightarrow> (exn + unit) \<times> world" where
  "updateDecorationListener add this w =
     (case objects w this of
        None \<Rightarrow> (Inl TypeError, w)
      | Some obj \<Rightarrow>
          (case removeDecorationListener obj of
             Some target \<Rightarrow>
               if \<not> add
               then (Inr (),
                     w\<lparr>viewManagerDecorators := dropDecorator target (viewManagerDecorators w),
                       objects := (objects w)(this \<mapsto> obj\<lparr>removeDecorationListener := None\<rparr>)\<rparr>)
               else (Inr (), w)
           | None \<Rightarrow>
               if add
               then (case addDecorator this (viewManagerDecorators w) of
                       Inl e \<Rightarrow> (Inl e, w)
                     | Inr ds \<Rightarrow>
                         (Inr (),
                          w\<lparr>viewManagerDecorators := ds,
                            objects := (objects w)(this \<mapsto> obj\<lparr>removeDecorationListener := Some this\<rparr>)\<rparr>))
               else (Inr (), w)))"

definition stop :: "ref \<Rightarrow> world \<Rightarrow> (exn + unit) \<times> world" where
  "stop this w = updateDecorationListener False this w"

text \<open>The constructor: a fresh object, stored in the static field before it registers itself.\<close>

definition new_RangeDecoration :: "range3d \<Rightarrow> world \<Rightarrow> (exn + ref) \<times> world" where
  "new_RangeDecoration rng w =
     (let this = nextRef w;
          w1 = w\<lparr>nextRef := Suc this,
                 decorator_static := Some this,
                 objects := (objects w)(this \<mapsto> \<lparr>extents_field = rng, removeDecorationListener = None\<rparr>)\<rparr>
      in case updateDecorationListener True this w1 of
           (Inl e, w2) \<Rightarrow> (Inl e, w2)
         | (Inr _, w2) \<Rightarrow> (Inr this, w2))"

definition isActive :: "world \<Rightarrow> bool" where
  "isActive w = (decorator_static w \<noteq> None)"

definition updateExtents :: "ref \<Rightarrow> range3d \<Rightarrow> world \<Rightarrow> (exn + unit) \<times> world" where
  "updateExtents this newExtents w =
     (case objects w this of
        None \<Rightarrow> (Inl TypeError, w)
      | Some obj \<Rightarrow> (Inr (), w\<lparr>objects := (objects w)(this \<mapsto> obj\<lparr>extents_field := newExtents\<rparr>)\<rparr>))"

definition getOrCreate :: "range3d \<Rightarrow> world \<Rightarrow> (exn + ref) \<times> world" where
  "getOrCreate rng w =
     (case decorator_static w of
        Some d \<Rightarrow> (Inr d, w)
      | None \<Rightarrow> new_RangeDecoration rng w)"

definition dispose :: "world \<Rightarrow> (exn + unit) \<times> world" where
  "dispose w =
     (case decorator_static w of
        None \<Rightarrow> (Inr (), w\<lparr>decorator_static := None\<rparr>)
      | Some dec \<Rightarrow>
          (case stop dec w of
             (Inl e, w1) \<Rightarrow> (Inl e, w1)
           | (Inr _, w1) \<Rightarrow>
               (Inr (),
                w1\<lparr>decorator_static := None,
                   viewManagerDecorators := dropDecorator dec (viewManagerDecorators w1)\<rparr>)))"

subsection \<open>Drawing\<close>

text \<open>
  Colours are kept as the expressions the code builds them with; nothing below depends on
  what the library computes for them.
\<close>

datatype colorDef =
    White
  | Black
  | Background nat
  | AdjustedForContrast colorDef colorDef
  | WithAlpha colorDef nat

datatype graphicType = WorldDecoration | WorldOverlay

datatype linePixels = Solid | Code2

record decorateContext =
  isSpatialView :: bool
  backgroundColor :: colorDef

record graphic =
  graphicKind :: graphicType
  lineColor :: colorDef
  fillColor :: colorDef
  lineWidth :: nat
  linePattern :: linePixels
  rangeBox :: range3d

definition decorate :: "rangeDecoration \<Rightarrow> decorateContext \<Rightarrow> graphic list" where
  "decorate this context =
     (if \<not> isSpatialView context then []
      else
        (let colorAccVis = AdjustedForContrast White (backgroundColor context);
             colorAccHid = WithAlpha colorAccVis 100
         in [\<lparr>graphicKind = WorldDecoration, lineColor = colorAccVis, fillColor = Black,
               lineWidth = 3, linePattern = Solid, rangeBox = extents_field this\<rparr>,
             \<lparr>graphicKind = WorldOverlay, lineColor = colorAccHid, fillColor = Black,
               lineWidth = 1, linePattern = Code2, rangeBox = extents_field this\<rparr>]))"

text \<open>
  A redraw request of the host: every registered decorator is asked to decorate, in the
  order of registration.
\<close>

definition redraw :: "decorateContext \<Rightarrow> world \<Rightarrow> graphic list" where
  "redraw context w =
     concat (map (\<lambda>d. case objects w d of None \<Rightarrow> [] | Some obj \<Rightarrow> decorate obj context)
                 (viewManagerDecorators w))"

subsection \<open>The states the application reaches\<close>

text \<open>
  The application uses the class through \<open>getOrCreate\<close> and \<open>dispose\<close> (the button of
  the debug widget), and \<open>getOrCreate\<close> is the only caller of the constructor;
  \<open>updateExtents\<close> is the remaining public method.
\<close>

inductive reachable :: "world \<Rightarrow> bool" where
  reach_init: "reachable initialWorld"
| reach_getOrCreate: "reachable w \<Longrightarrow> reachable (snd (getOrCreate rng w))"
| reach_dispose: "reachable w \<Longrightarrow> reachable (snd (dispose w))"
| reach_updateExtents: "reachable w \<Longrightarrow> reachable (snd (updateExtents d rng w))"

definition singleton_inv :: "world \<Rightarrow> bool" where
  "singleton_inv w =
     (case decorator_static w of
        None \<Rightarrow> viewManagerDecorators w = []
      | Some d \<Rightarrow>
          viewManagerDecorators w = [d] \<and>
          (case objects w d of
             None \<Rightarrow> False
           | Some obj \<Rightarrow> removeDecorationListener obj = Some d))"

section \<open>reality-data-manager.ts\<close>

subsection \<open>Data of the libraries\<close>

record cartographic =
  longitude :: real
  latitude :: real
  height :: real

record yawPitchRollAngles =
  yaw :: real
  pitch :: real
  roll :: real

text \<open>A \<open>Transform\<close> is a 3x3 matrix (nine coefficients) and an origin.\<close>

record transform =
  matrix :: "real list"
  transformOrigin :: point3d

text \<open>
  \<open>EcefLocationProps\<close>. An \<open>EcefLocation\<close> object is determined by the properties it was
  constructed from, so \<open>new EcefLocation(props)\<close> is read as \<open>props\<close>; the transform the
  library derives from them is \<open>getTransform\<close> below.
\<close>

record ecefLocationProps =
  origin :: point3d
  orientation :: yawPitchRollAngles
  cartographicOrigin :: "cartographic option"
  xVector :: "point3d option"
  yVector :: "point3d option"

datatype location = Carto cartographic | Ecef ecefLocationProps

record geoLocation =
  location :: "location option"
  extents :: "range3d option"

datatype realityDataProvider = ContextShare

datatype realityDataFormat = OPC | ThreeDTile

record realityDataSourceKey =
  provider :: realityDataProvider
  format :: realityDataFormat
  sourceId :: string

record contextRealityModelProps =
  rdSourceKey :: realityDataSourceKey
  tilesetUrl :: string
  name :: "string option"
  description :: "string option"
  modelRealityDataId :: "string option"

record realityDataProps =
  realityData :: "contextRealityModelProps option"
  geoLocation :: "geoLocation option"

text \<open>The fields of \<open>ITwinRealityData\<close> that the manager reads.\<close>

record iTwinRealityData =
  rdId :: string
  displayName :: "string option"
  rdDescription :: "string option"
  rootDocument :: "string option"
  rdType :: "string option"

record blankConnectionProps =
  connectionName :: string
  connectionLocation :: location
  connectionExtents :: range3d
  connectionITwinId :: string

record yawPitchRollProps =
  propsOrigin :: point3d
  propsAngles :: "yawPitchRollAngles option"

record orbitGtBounds =
  boundsMin :: point3d
  boundsMax :: point3d

record pageCachedFile =
  fileName :: string
  fileSize :: nat
  pageSize :: nat
  maxPageCount :: nat

record pointCloudReader =
  fileBounds :: orbitGtBounds
  fileCRS :: "string option"

record response =
  ok :: bool
  json :: "jsval + jsval"

text \<open>
  The geometry of the libraries (\<open>core-geometry\<close>, \<open>core-common\<close>, \<open>core-frontend\<close>) is not
  part of the repository: every function of them that computes is a parameter, and a
  function the library declares to return \<open>T | undefined\<close> returns an option. The last
  two fields are what JavaScript makes of a region entry that is not a number (a missing
  entry, a string, ...): \<open>coerceNumber v\<close> where the entry is used as a number,
  \<open>coerceHalfSum a b\<close> for \<open>(a + b) / 2.0\<close>.
\<close>

record lib =
  toEcef :: "cartographic \<Rightarrow> point3d"
  fromEcef :: "point3d \<Rightarrow> cartographic option"
  rangeCreate :: "point3d \<Rightarrow> point3d \<Rightarrow> range3d"
  createXYZXYZ :: "real \<Rightarrow> real \<Rightarrow> real \<Rightarrow> real \<Rightarrow> real \<Rightarrow> real \<Rightarrow> range3d"
  createNull :: range3d
  rangeFromJSON :: "range3d \<Rightarrow> range3d"
  extendRange :: "range3d \<Rightarrow> range3d \<Rightarrow> range3d"
  rangeCenter :: "range3d \<Rightarrow> point3d"
  localXYZToWorld :: "range3d \<Rightarrow> real \<Rightarrow> real \<Rightarrow> real \<Rightarrow> point3d option"
  magnitude :: "point3d \<Rightarrow> real"
  createFromCartographicOrigin :: "cartographic \<Rightarrow> point3d option \<Rightarrow> ecefLocationProps"
  getTransform :: "ecefLocationProps \<Rightarrow> transform"
  transformInverse :: "transform \<Rightarrow> transform option"
  multiplyRange :: "transform \<Rightarrow> range3d \<Rightarrow> range3d"
  multiplyPoint3d :: "transform \<Rightarrow> point3d \<Rightarrow> point3d"
  createIdentity :: transform
  isIdentity :: "real list \<Rightarrow> bool"
  columnX :: "real list \<Rightarrow> point3d"
  columnY :: "real list \<Rightarrow> point3d"
  tryFromTransform :: "transform \<Rightarrow> yawPitchRollProps option"
  transformFromJson :: "jsval \<Rightarrow> transform option"
  rangeFromBoundingVolume :: "jsval \<Rightarrow> range3d option"
  coerceNumber :: "jsval \<Rightarrow> real"
  coerceHalfSum :: "jsval \<Rightarrow> jsval \<Rightarrow> real"

text \<open>
  The network and the point-cloud engine. A call that can reject returns the rejected
  value on the left. \<open>getRealityData\<close> takes the access token, the iTwin id and the
  reality-data id; \<open>getBlobUrl\<close> the record, the access token and the blob path.
\<close>

record env =
  getRealityData :: "string \<Rightarrow> string \<Rightarrow> string \<Rightarrow> jsval + iTwinRealityData"
  getBlobUrl :: "iTwinRealityData \<Rightarrow> string \<Rightarrow> string \<Rightarrow> jsval + string"
  fetch :: "string \<Rightarrow> jsval + response"
  createOnlineEngine :: "jsval option"
  getFileLength :: "string \<Rightarrow> jsval + nat"
  openFile :: "pageCachedFile \<Rightarrow> string \<Rightarrow> bool \<Rightarrow> jsval + pointCloudReader"
  prepareForArea :: "string \<Rightarrow> orbitGtBounds \<Rightarrow> jsval option"
  transformBounds :: "orbitGtBounds \<Rightarrow> string \<Rightarrow> string \<Rightarrow> orbitGtBounds"
  newOrbitGtBounds :: orbitGtBounds

record manager =
  iTwinId :: string
  realityDataId :: string

text \<open>
  What a call leaves behind: the notifications shown by \<open>toaster.negative\<close> (all of type
  "persisting"), oldest first, and the two process-wide singletons of the point-cloud
  library.
\<close>

record mstate =
  toasts :: "string list"
  downloaderInstance :: bool
  crsEngine :: bool

definition toaster_negative :: "string \<Rightarrow> mstate \<Rightarrow> mstate" where
  "toaster_negative msg s = s\<lparr>toasts := toasts s @ [msg]\<rparr>"

subsection \<open>JavaScript values\<close>

text \<open>
  \<open>v.k\<close> for the keys read here (none of them is a built-in property of a string, an
  array, a number or a boolean). An object is the list of its own properties, each key
  once.
\<close>

fun member :: "jsval \<Rightarrow> string \<Rightarrow> exn + jsval" where
  "member JUndefined k = Inl TypeError"
| "member JNull k = Inl TypeError"
| "member (JObj kvs) k = Inr (case map_of kvs k of None \<Rightarrow> JUndefined | Some v \<Rightarrow> v)"
| "member v k = Inr JUndefined"

fun truthy :: "jsval \<Rightarrow> bool" where
  "truthy JUndefined = False"
| "truthy JNull = False"
| "truthy (JBool b) = b"
| "truthy (JNum n) = (n \<noteq> 0)"
| "truthy (JStr s) = (s \<noteq> [])"
| "truthy v = True"

definition truthyString :: "string option \<Rightarrow> bool" where
  "truthyString v = (case v of None \<Rightarrow> False | Some s \<Rightarrow> s \<noteq> [])"

definition asArray :: "jsval \<Rightarrow> jsval list option" where
  "asArray v = (case v of JArr xs \<Rightarrow> Some xs | _ \<Rightarrow> None)"

definition element :: "jsval list \<Rightarrow> nat \<Rightarrow> jsval" where
  "element xs i = (if i < length xs then xs ! i else JUndefined)"

definition asNumber :: "lib \<Rightarrow> jsval \<Rightarrow> real" where
  "asNumber l v = (case v of JNum r \<Rightarrow> r | _ \<Rightarrow> coerceNumber l v)"

definition halfSum :: "lib \<Rightarrow> jsval \<Rightarrow> jsval \<Rightarrow> real" where
  "halfSum l a b =
     (case a of
        JNum p \<Rightarrow> (case b of JNum q \<Rightarrow> (p + q) / 2 | _ \<Rightarrow> coerceHalfSum l a b)
      | _ \<Rightarrow> coerceHalfSum l a b)"

text \<open>
  \<open>toUpperCase\<close> on type tags, which are ASCII: the letters a to z are raised, every
  other character stays.
\<close>

definition toUpperChar :: "char \<Rightarrow> char" where
  "toUpperChar c =
     (case map_of (zip ''abcdefghijklmnopqrstuvwxyz'' ''ABCDEFGHIJKLMNOPQRSTUVWXYZ'') c of
        None \<Rightarrow> c
      | Some u \<Rightarrow> u)"

definition toUpperCase :: "string \<Rightarrow> string" where
  "toUpperCase s = map toUpperChar s"

subsection \<open>fetchRealityData and getRealityDataProps\<close>

definition hasOwnErrorNumber :: "jsval \<Rightarrow> bool" where
  "hasOwnErrorNumber error =
     (case error of JObj kvs \<Rightarrow> map_of kvs ''errorNumber'' \<noteq> None | _ \<Rightarrow> False)"

definition errorNumber :: "jsval \<Rightarrow> jsval" where
  "errorNumber error =
     (case error of
        JObj kvs \<Rightarrow> (case map_of kvs ''errorNumber'' of None \<Rightarrow> JUndefined | Some v \<Rightarrow> v)
      | _ \<Rightarrow> JUndefined)"

definition fetchRealityData ::
  "env \<Rightarrow> manager \<Rightarrow> string \<Rightarrow> mstate \<Rightarrow> iTwinRealityData option \<times> mstate" where
  "fetchRealityData e m accessToken s =
     (case getRealityData e accessToken (iTwinId m) (realityDataId m) of
        Inr rd \<Rightarrow> (Some rd, s)
      | Inl error \<Rightarrow>
          (if hasOwnErrorNumber error
           then
             (let s1 = (if errorNumber error = JNum 401 then toaster_negative ''Unauthorized'' s else s);
                  s2 = (if errorNumber error = JNum 404 then toaster_negative ''NotFound'' s1 else s1);
                  s3 = (if errorNumber error = JNum 422
                        then toaster_negative ''SomethingWentWrong'' s2 else s2)
              in (None, s3))
           else (None, toaster_negative ''SomethingWentWrongUnexpected'' s)))"

subsection \<open>parseRootDocument\<close>

definition centerOfEarth :: ecefLocationProps where
  "centerOfEarth =
     \<lparr>origin = \<lparr>px = 0, py = 0, pz = 0\<rparr>,
      orientation = \<lparr>yaw = 0, pitch = 0, roll = 0\<rparr>,
      cartographicOrigin = None, xVector = None, yVector = None\<rparr>"

text \<open>\<open>Cartographic.fromRadians\<close> stores its three arguments.\<close>

definition fromRadians :: "real \<Rightarrow> real \<Rightarrow> real \<Rightarrow> cartographic" where
  "fromRadians lon lat h = \<lparr>longitude = lon, latitude = lat, height = h\<rparr>"

definition fromDegrees :: "real \<Rightarrow> real \<Rightarrow> real \<Rightarrow> cartographic" where
  "fromDegrees lon lat h = \<lparr>longitude = lon * pi / 180, latitude = lat * pi / 180, height = h\<rparr>"

definition regionCartoCenter :: "lib \<Rightarrow> jsval list \<Rightarrow> cartographic" where
  "regionCartoCenter l region =
     fromRadians (halfSum l (element region 0) (element region 2))
                 (halfSum l (element region 1) (element region 3))
                 (halfSum l (element region 4) (element region 5))"

text \<open>
  The branch of a declared region (lines 265 to 292, after the check of \<open>asArray\<close>): the
  values of the variables \<open>location\<close> and \<open>worldRange\<close> when the branch ends. The
  non-null assertion on \<open>inverse()\<close> is a \<open>TypeError\<close> at the call that follows when the
  transform has no inverse.
\<close>

definition regionBranch :: "lib \<Rightarrow> jsval list \<Rightarrow> exn + location \<times> range3d" where
  "regionBranch l region =
     (let ecefLow = toEcef l (fromRadians (asNumber l (element region 0))
                                           (asNumber l (element region 1))
                                           (asNumber l (element region 4)));
          ecefHigh = toEcef l (fromRadians (asNumber l (element region 2))
                                            (asNumber l (element region 3))
                                            (asNumber l (element region 5)));
          ecefRange = rangeCreate l ecefLow ecefHigh;
          cartoCenter = regionCartoCenter l region;
          ecefLocation = createFromCartographicOrigin l cartoCenter None
      in case transformInverse l (getTransform l ecefLocation) of
           None \<Rightarrow> Inl TypeError
         | Some ecefToWorld \<Rightarrow>
             Inr (Carto cartoCenter,
                  extendRange l (createNull l) (rangeFromJSON l (multiplyRange l ecefToWorld ecefRange))))"

definition worldToEcefTransform :: "lib \<Rightarrow> jsval \<Rightarrow> transform" where
  "worldToEcefTransform l rootObj =
     (case transformFromJson l (case member rootObj ''transform'' of Inl _ \<Rightarrow> JUndefined | Inr v \<Rightarrow> v) of
        None \<Rightarrow> createIdentity l
      | Some t \<Rightarrow> t)"

text \<open>
  The other branch (lines 294 to 342), for a root object \<open>rootObj\<close> with bounding volume
  \<open>boundingVolume\<close>: again the values of \<open>location\<close> and \<open>worldRange\<close> at its end. Reading
  \<open>range.range\<close> when \<open>rangeFromBoundingVolume\<close> gave \<open>undefined\<close>, and handing an
  undefined \<open>cartoCenter\<close> to \<open>createFromCartographicOrigin\<close>, are \<open>TypeError\<close>s.
\<close>

definition transformBranch :: "lib \<Rightarrow> jsval \<Rightarrow> jsval \<Rightarrow> exn + location \<times> range3d" where
  "transformBranch l rootObj boundingVolume =
     (let t = worldToEcefTransform l rootObj
      in case rangeFromBoundingVolume l boundingVolume of
           None \<Rightarrow> Inl TypeError
         | Some rng \<Rightarrow>
             (let ecefRange = multiplyRange l t rng;
                  ecefCenter = multiplyPoint3d l t (rangeCenter l rng);
                  cartoCenter = fromEcef l ecefCenter;
                  isNotNearEarthSurface =
                    (case cartoCenter of None \<Rightarrow> False | Some c \<Rightarrow> height c < - 5000);
                  earthCenterToRangeCenterRayLength = magnitude l (rangeCenter l rng)
              in if isIdentity l (matrix t) \<and>
                    (earthCenterToRangeCenterRayLength < 100000 \<or> isNotNearEarthSurface)
                 then Inr (Ecef centerOfEarth,
                           extendRange l (createNull l) (rangeFromJSON l ecefRange))
                 else
                   (let locationOrientation = tryFromTransform l t;
                        ecefLocation =
                          (case locationOrientation of
                             None \<Rightarrow> None
                           | Some lo \<Rightarrow>
                               (case propsAngles lo of
                                  None \<Rightarrow> None
                                | Some angles \<Rightarrow>
                                    if \<not> isIdentity l (matrix t)
                                    then Some \<lparr>origin = propsOrigin lo, orientation = angles,
                                               cartographicOrigin = None,
                                               xVector = Some (columnX l (matrix t)),
                                               yVector = Some (columnY l (matrix t))\<rparr>
                                    else None));
                        ecefLocation2 =
                          (case ecefLocation of
                             Some loc \<Rightarrow> Inr loc
                           | None \<Rightarrow>
                               (let worldCenter =
                                      (if \<not> isIdentity l (matrix t) then Some (rangeCenter l rng)
                                       else None)
                                in case cartoCenter of
                                     None \<Rightarrow> Inl TypeError
                                   | Some c \<Rightarrow> Inr (createFromCartographicOrigin l c worldCenter)))
                    in case ecefLocation2 of
                         Inl ex \<Rightarrow> Inl ex
                       | Inr loc \<Rightarrow>
                           (case transformInverse l (getTransform l loc) of
                              None \<Rightarrow> Inl TypeError
                            | Some ecefToWorld \<Rightarrow>
                                Inr (Ecef loc,
                                     extendRange l (createNull l)
                                       (rangeFromJSON l (multiplyRange l ecefToWorld ecefRange)))))))"

text \<open>
  \<open>parseRootDocument\<close>. The \<open>return { location, extents: worldRange }\<close> of line 343 stands
  inside the \<open>else\<close> block: the branch of a declared region runs to the end of the
  function, whose result is then \<open>undefined\<close>.
\<close>

definition parseRootDocument ::
  "lib \<Rightarrow> jsval \<Rightarrow> mstate \<Rightarrow> (exn + geoLocation option) \<times> mstate" where
  "parseRootDocument l rootDoc s =
     (case member rootDoc ''root'' of
        Inl ex \<Rightarrow> (Inl ex, s)
      | Inr rootObj \<Rightarrow>
          if rootObj = JUndefined
          then (Inr None, toaster_negative ''RootDocMissingRootProperty'' s)
          else
            (case member rootObj ''boundingVolume'' of
               Inl ex \<Rightarrow> (Inl ex, s)
             | Inr boundingVolume \<Rightarrow>
                 (case member boundingVolume ''region'' of
                    Inl ex \<Rightarrow> (Inl ex, s)
                  | Inr regionValue \<Rightarrow>
                      if truthy regionValue
                      then
                        (case asArray regionValue of
                           None \<Rightarrow> (Inr None, toaster_negative ''RootDocMissingRegionProperty'' s)
                         | Some region \<Rightarrow>
                             (case regionBranch l region of
                                Inl ex \<Rightarrow> (Inl ex, s)
                              | Inr _ \<Rightarrow> (Inr None, s)))
                      else
                        (case transformBranch l rootObj boundingVolume of
                           Inl ex \<Rightarrow> (Inl ex, s)
                         | Inr (loc, worldRange) \<Rightarrow>
                             (Inr (Some \<lparr>location = Some loc, extents = Some worldRange\<rparr>), s)))))"

subsection \<open>realityModelFromOPC\<close>

definition blobFile :: "string \<Rightarrow> nat \<Rightarrow> pageCachedFile" where
  "blobFile blobFileURL blobFileSize =
     \<lparr>fileName = blobFileURL, fileSize = blobFileSize, pageSize = 128 * 1024, maxPageCount = 128\<rparr>"

definition boundsRange :: "lib \<Rightarrow> orbitGtBounds \<Rightarrow> range3d" where
  "boundsRange l b =
     createXYZXYZ l (px (boundsMin b)) (py (boundsMin b)) (pz (boundsMin b))
                    (px (boundsMax b)) (py (boundsMax b)) (pz (boundsMax b))"

text \<open>What follows \<open>OPCReader.openFile\<close> (lines 371 to 410).\<close>

definition fromReader :: "lib \<Rightarrow> env \<Rightarrow> pointCloudReader \<Rightarrow> exn + geoLocation option" where
  "fromReader l e fileReader =
     (let bounds = fileBounds fileReader;
          worldRange = boundsRange l bounds
      in if truthyString (fileCRS fileReader)
         then
           (let fileCrs = (case fileCRS fileReader of None \<Rightarrow> [] | Some c \<Rightarrow> c)
            in case prepareForArea e fileCrs bounds of
                 Some v \<Rightarrow> Inl (Thrown v)
               | None \<Rightarrow>
                   (case prepareForArea e ''4978'' (newOrbitGtBounds e) of
                      Some v \<Rightarrow> Inl (Thrown v)
                    | None \<Rightarrow>
                        (let ecefBounds = transformBounds e bounds fileCrs ''4978'';
                             ecefRange = boundsRange l ecefBounds
                         in case localXYZToWorld l ecefRange (1 / 2) (1 / 2) (1 / 2) of
                              None \<Rightarrow> Inl TypeError
                            | Some ecefCenter \<Rightarrow>
                                (case fromEcef l ecefCenter of
                                   None \<Rightarrow> Inl TypeError
                                 | Some c \<Rightarrow>
                                     (let cartoCenter = c\<lparr>height := 0\<rparr>;
                                          ecefLocation = createFromCartographicOrigin l cartoCenter None
                                      in case transformInverse l (getTransform l ecefLocation) of
                                           None \<Rightarrow> Inl TypeError
                                         | Some ecefToWorld \<Rightarrow>
                                             Inr (Some \<lparr>location = Some (Ecef ecefLocation),
                                                        extents = Some (multiplyRange l ecefToWorld ecefRange)\<rparr>))))))
         else Inr (Some \<lparr>location = Some (Ecef centerOfEarth), extents = Some worldRange\<rparr>))"

definition realityModelFromOPC ::
  "lib \<Rightarrow> env \<Rightarrow> string \<Rightarrow> mstate \<Rightarrow> (exn + geoLocation option) \<times> mstate" where
  "realityModelFromOPC l e blobFileURL s =
     (let s1 = (if \<not> downloaderInstance s then s\<lparr>downloaderInstance := True\<rparr> else s);
          engine =
            (if \<not> crsEngine s1
             then (case createOnlineEngine e of
                     Some v \<Rightarrow> Inl (Thrown v)
                   | None \<Rightarrow> Inr (s1\<lparr>crsEngine := True\<rparr>))
             else Inr s1)
      in case engine of
           Inl ex \<Rightarrow> (Inl ex, s1)
         | Inr s2 \<Rightarrow>
             (case getFileLength e blobFileURL of
                Inl v \<Rightarrow> (Inl (Thrown v), s2)
              | Inr blobFileSize \<Rightarrow>
                  (case openFile e (blobFile blobFileURL blobFileSize) blobFileURL True of
                     Inl v \<Rightarrow> (Inl (Thrown v), s2)
                   | Inr fileReader \<Rightarrow> (fromReader l e fileReader, s2))))"

subsection \<open>getRealityDataGeoLocation, getRealityDataProps and getBlankConnection\<close>

definition displayedName :: "iTwinRealityData \<Rightarrow> string" where
  "displayedName rd =
     (case displayName rd of None \<Rightarrow> rdId rd | Some n \<Rightarrow> if n \<noteq> [] then n else rdId rd)"

definition rootDocName :: "iTwinRealityData \<Rightarrow> string" where
  "rootDocName rd =
     (case rootDocument rd of
        None \<Rightarrow> displayedName rd @ ''.json''
      | Some d \<Rightarrow> if d \<noteq> [] then d else displayedName rd @ ''.json'')"

definition typeIs :: "iTwinRealityData \<Rightarrow> string \<Rightarrow> bool" where
  "typeIs rd upper =
     (case rdType rd of None \<Rightarrow> False | Some t \<Rightarrow> t \<noteq> [] \<and> toUpperCase t = upper)"

definition getRealityDataGeoLocation ::
  "lib \<Rightarrow> env \<Rightarrow> string \<Rightarrow> iTwinRealityData \<Rightarrow> mstate \<Rightarrow> (exn + geoLocation option) \<times> mstate" where
  "getRealityDataGeoLocation l e accessToken rd s =
     (case getBlobUrl e rd accessToken (rootDocName rd) of
        Inl v \<Rightarrow> (Inl (Thrown v), s)
      | Inr rootDocUrl \<Rightarrow>
          if typeIs rd ''OPC''
          then realityModelFromOPC l e rootDocUrl s
          else if typeIs rd ''CESIUM3DTILES'' \<or> typeIs rd ''PNTS'' \<or>
                  typeIs rd ''REALITYMESH3DTILES'' \<or> typeIs rd ''TERRAIN3DTILES''
          then
            (case fetch e rootDocUrl of
               Inl v \<Rightarrow> (Inl (Thrown v), s)
             | Inr rootDocResponse \<Rightarrow>
                 if \<not> ok rootDocResponse
                 then (Inr None, toaster_negative ''RootDocumentError'' s)
                 else
                   (case json rootDocResponse of
                      Inl v \<Rightarrow> (Inl (Thrown v), s)
                    | Inr rootDoc \<Rightarrow> parseRootDocument l rootDoc s))
          else (Inr None, toaster_negative ''NotSupported'' s))"

definition getRealityDataProps ::
  "lib \<Rightarrow> env \<Rightarrow> manager \<Rightarrow> string \<Rightarrow> mstate \<Rightarrow> (exn + realityDataProps) \<times> mstate" where
  "getRealityDataProps l e m accessToken s =
     (case fetchRealityData e m accessToken s of
        (None, s1) \<Rightarrow> (Inr \<lparr>realityData = None, geoLocation = None\<rparr>, s1)
      | (Some rd, s1) \<Rightarrow>
          (let realityDataSourceKey =
                 \<lparr>provider = ContextShare,
                  format = (if rdType rd = Some ''OPC'' then OPC else ThreeDTile),
                  sourceId = rdId rd\<rparr>
           in case getBlobUrl e rd accessToken [] of
                Inl v \<Rightarrow> (Inl (Thrown v), s1)
              | Inr url \<Rightarrow>
                  (let visualizationProps =
                         \<lparr>rdSourceKey = realityDataSourceKey, tilesetUrl = url,
                          name = Some (displayedName rd), description = rdDescription rd,
                          modelRealityDataId = Some (rdId rd)\<rparr>
                   in case getRealityDataGeoLocation l e accessToken rd s1 of
                        (Inl ex, s2) \<Rightarrow> (Inl ex, s2)
                      | (Inr geo, s2) \<Rightarrow>
                          (Inr \<lparr>realityData = Some visualizationProps, geoLocation = geo\<rparr>, s2))))"

definition getBlankConnection :: "lib \<Rightarrow> manager \<Rightarrow> realityDataProps \<Rightarrow> blankConnectionProps" where
  "getBlankConnection l m props =
     \<lparr>connectionName =
        (case realityData props of
           None \<Rightarrow> ''Reality Data''
         | Some rd \<Rightarrow> (case name rd of None \<Rightarrow> ''Reality Data'' | Some n \<Rightarrow> n)),
      connectionLocation =
        (case geoLocation props of
           None \<Rightarrow> Carto (fromDegrees 0 0 0)
         | Some g \<Rightarrow> (case location g of None \<Rightarrow> Carto (fromDegrees 0 0 0) | Some loc \<Rightarrow> loc)),
      connectionExtents =
        (case geoLocation props of
           None \<Rightarrow> createNull l
         | Some g \<Rightarrow> (case extents g of None \<Rightarrow> createNull l | Some x \<Rightarrow> x)),
      connectionITwinId = iTwinId m\<rparr>"

subsection \<open>Shapes of the inputs\<close>

text \<open>
  A document of the transform form: it has a root object with a bounding volume that
  declares no region (the region is missing or falsy).
\<close>

definition transformForm :: "jsval \<Rightarrow> jsval \<Rightarrow> jsval \<Rightarrow> bool" where
  "transformForm rootDoc rootObj boundingVolume =
     (member rootDoc ''root'' = Inr rootObj \<and> rootObj \<noteq> JUndefined \<and>
      member rootObj ''boundingVolume'' = Inr boundingVolume \<and>
      (\<exists>regionValue. member boundingVolume ''region'' = Inr regionValue \<and> \<not> truthy regionValue))"

text \<open>Equality of strings up to the case of letters.\<close>

definition equalsIgnoreCase :: "string \<Rightarrow> string \<Rightarrow> bool" where
  "equalsIgnoreCase a b = (toUpperCase a = toUpperCase b)"

subsection \<open>A small interpretation of the parameters\<close>

text \<open>
  To run the functions on concrete inputs the parameters need values. \<open>flatLib\<close> reads
  positions in a flat chart (longitude, latitude and height are the three coordinates),
  moves ranges and points by the origin of a transform, and knows the angles of two
  matrices: the identity and the half turn about the vertical axis.
\<close>

definition numbersOf :: "jsval \<Rightarrow> real list" where
  "numbersOf v =
     (case v of JArr xs \<Rightarrow> map (\<lambda>x. case x of JNum r \<Rightarrow> r | _ \<Rightarrow> 0) xs | _ \<Rightarrow> [])"

definition identityMatrix :: "real list" where
  "identityMatrix = [1, 0, 0, 0, 1, 0, 0, 0, 1]"

definition halfTurnMatrix :: "real list" where
  "halfTurnMatrix = [- 1, 0, 0, 0, - 1, 0, 0, 0, 1]"

definition addPoint :: "point3d \<Rightarrow> point3d \<Rightarrow> point3d" where
  "addPoint a b = \<lparr>px = px a + px b, py = py a + py b, pz = pz a + pz b\<rparr>"

definition nullRange :: range3d where
  "nullRange = \<lparr>low = \<lparr>px = 1, py = 1, pz = 1\<rparr>, high = \<lparr>px = 0, py = 0, pz = 0\<rparr>\<rparr>"

definition flatLib :: lib where
  "flatLib =
     \<lparr>toEcef = (\<lambda>c. \<lparr>px = longitude c, py = latitude c, pz = height c\<rparr>),
      fromEcef = (\<lambda>p. Some \<lparr>longitude = px p, latitude = py p, height = pz p\<rparr>),
      rangeCreate = (\<lambda>a b. \<lparr>low = a, high = b\<rparr>),
      createXYZXYZ = (\<lambda>a b c d e f. \<lparr>low = \<lparr>px = a, py = b, pz = c\<rparr>, high = \<lparr>px = d, py = e, pz = f\<rparr>\<rparr>),
      createNull = nullRange,
      rangeFromJSON = (\<lambda>r. r),
      extendRange = (\<lambda>a b. if a = nullRange then b else a),
      rangeCenter = (\<lambda>r. \<lparr>px = (px (low r) + px (high r)) / 2,
                             py = (py (low r) + py (high r)) / 2,
                             pz = (pz (low r) + pz (high r)) / 2\<rparr>),
      localXYZToWorld = (\<lambda>r fx fy fz.
         Some \<lparr>px = px (low r) + fx * (px (high r) - px (low r)),
               py = py (low r) + fy * (py (high r) - py (low r)),
               pz = pz (low r) + fz * (pz (high r) - pz (low r))\<rparr>),
      magnitude = (\<lambda>p. \<bar>px p\<bar> + \<bar>py p\<bar> + \<bar>pz p\<bar>),
      createFromCartographicOrigin = (\<lambda>c w.
         \<lparr>origin = \<lparr>px = longitude c, py = latitude c, pz = height c\<rparr>,
          orientation = \<lparr>yaw = 0, pitch = 0, roll = 0\<rparr>,
          cartographicOrigin = Some c, xVector = None, yVector = None\<rparr>),
      getTransform = (\<lambda>loc. \<lparr>matrix = identityMatrix, transformOrigin = origin loc\<rparr>),
      transformInverse = (\<lambda>t.
         Some \<lparr>matrix = matrix t,
               transformOrigin = \<lparr>px = - px (transformOrigin t), py = - py (transformOrigin t),
                                  pz = - pz (transformOrigin t)\<rparr>\<rparr>),
      multiplyRange = (\<lambda>t r. \<lparr>low = addPoint (low r) (transformOrigin t),
                               high = addPoint (high r) (transformOrigin t)\<rparr>),
      multiplyPoint3d = (\<lambda>t p. addPoint p (transformOrigin t)),
      createIdentity = \<lparr>matrix = identityMatrix, transformOrigin = \<lparr>px = 0, py = 0, pz = 0\<rparr>\<rparr>,
      isIdentity = (\<lambda>m. m = identityMatrix),
      columnX = (\<lambda>m. \<lparr>px = m ! 0, py = m ! 3, pz = m ! 6\<rparr>),
      columnY = (\<lambda>m. \<lparr>px = m ! 1, py = m ! 4, pz = m ! 7\<rparr>),
      tryFromTransform = (\<lambda>t.
         Some \<lparr>propsOrigin = transformOrigin t,
               propsAngles =
                 (if matrix t = identityMatrix then Some \<lparr>yaw = 0, pitch = 0, roll = 0\<rparr>
                  else if matrix t = halfTurnMatrix then Some \<lparr>yaw = pi, pitch = 0, roll = 0\<rparr>
                  else None)\<rparr>),
      transformFromJson = (\<lambda>v.
         let n = numbersOf v
         in if length n = 16
            then Some \<lparr>matrix = [n ! 0, n ! 4, n ! 8, n ! 1, n ! 5, n ! 9, n ! 2, n ! 6, n ! 10],
                       transformOrigin = \<lparr>px = n ! 12, py = n ! 13, pz = n ! 14\<rparr>\<rparr>
            else None),
      rangeFromBoundingVolume = (\<lambda>v.
         let n = numbersOf (case member v ''box'' of Inl _ \<Rightarrow> JUndefined | Inr b \<Rightarrow> b)
         in if length n = 12
            then Some \<lparr>low = \<lparr>px = n ! 0 - \<bar>n ! 3\<bar>, py = n ! 1 - \<bar>n ! 7\<bar>, pz = n ! 2 - \<bar>n ! 11\<bar>\<rparr>,
                       high = \<lparr>px = n ! 0 + \<bar>n ! 3\<bar>, py = n ! 1 + \<bar>n ! 7\<bar>, pz = n ! 2 + \<bar>n ! 11\<bar>\<rparr>\<rparr>
            else None),
      coerceNumber = (\<lambda>v. 0),
      coerceHalfSum = (\<lambda>a b. 0)\<rparr>"

text \<open>
  \<open>quietEnv\<close> is a network where every call succeeds: the client returns the record
  \<open>sampleRecord\<close>, every blob has the URL of its path, every download is the document
  \<open>{}\<close>, and the point cloud has no reference system.
\<close>

definition sampleRecord :: iTwinRealityData where
  "sampleRecord =
     \<lparr>rdId = ''rd-1'', displayName = Some ''Site'', rdDescription = None,
      rootDocument = Some ''tileset.json'', rdType = Some ''Cesium3DTiles''\<rparr>"

definition sampleBounds :: orbitGtBounds where
  "sampleBounds = \<lparr>boundsMin = \<lparr>px = 0, py = 0, pz = 0\<rparr>, boundsMax = \<lparr>px = 10, py = 20, pz = 30\<rparr>\<rparr>"

definition quietEnv :: env where
  "quietEnv =
     \<lparr>getRealityData = (\<lambda>accessToken itwin rdid. Inr sampleRecord),
      getBlobUrl = (\<lambda>rd accessToken path. Inr (''https://blob/'' @ path)),
      fetch = (\<lambda>url. Inr \<lparr>ok = True, json = Inr (JObj [])\<rparr>),
      createOnlineEngine = None,
      getFileLength = (\<lambda>url. Inr 4096),
      openFile = (\<lambda>file url lazy. Inr \<lparr>fileBounds = sampleBounds, fileCRS = None\<rparr>),
      prepareForArea = (\<lambda>crs b. None),
      transformBounds = (\<lambda>b fromCrs toCrs. b),
      newOrbitGtBounds = \<lparr>boundsMin = \<lparr>px = 0, py = 0, pz = 0\<rparr>, boundsMax = \<lparr>px = 0, py = 0, pz = 0\<rparr>\<rparr>\<rparr>"

text \<open>
  \<open>crsEnv\<close> differs in the point cloud: opened through a cache of 128 KiB pages and 128
  pages it has the reference system 32631, opened in any other way the call rejects.
\<close>

definition crsEnv :: env where
  "crsEnv = quietEnv\<lparr>openFile := (\<lambda>file url lazy.
       if pageSize file = 131072 \<and> maxPageCount file = 128
       then Inr \<lparr>fileBounds = sampleBounds, fileCRS = Some ''32631''\<rparr>
       else Inl (JStr ''unexpected cache''))\<rparr>"

text \<open>The names of the five supported types.\<close>

definition supportedTypeNames :: "string list" where
  "supportedTypeNames =
     [''OPC'', ''Cesium3DTiles'', ''PNTS'', ''RealityMesh3DTiles'', ''Terrain3DTiles'']"

text \<open>
  \<open>rejecting error\<close> is the network whose metadata fetch rejects with \<open>error\<close>,
  \<open>serving rootDoc\<close> the one whose download of the root document is \<open>rootDoc\<close>.
\<close>

definition rejecting :: "jsval \<Rightarrow> env" where
  "rejecting error = quietEnv\<lparr>getRealityData := (\<lambda>accessToken itwin rdid. Inl error)\<rparr>"

definition serving :: "jsval \<Rightarrow> env" where
  "serving rootDoc = quietEnv\<lparr>fetch := (\<lambda>url. Inr \<lparr>ok = True, json = Inr rootDoc\<rparr>)\<rparr>"

definition sampleManager :: manager where
  "sampleManager = \<lparr>iTwinId = ''itwin-1'', realityDataId = ''rd-1''\<rparr>"

definition freshState :: mstate where
  "freshState = \<lparr>toasts = [], downloaderInstance = False, crsEngine = False\<rparr>"

text \<open>The documents used below.\<close>

definition regionDoc :: jsval where
  "regionDoc =
     JObj [(''root'', JObj [(''boundingVolume'',
        JObj [(''region'', JArr [JNum 0.5, JNum 0.25, JNum 1.5, JNum 0.75, JNum 0, JNum 100])])])]"

definition noBoundingVolumeDoc :: jsval where
  "noBoundingVolumeDoc = JObj [(''root'', JObj [])]"

definition boxDoc :: jsval where
  "boxDoc =
     JObj [(''root'', JObj [(''boundingVolume'',
        JObj [(''box'', JArr [JNum 0, JNum 0, JNum 0, JNum 10, JNum 0, JNum 0,
                              JNum 0, JNum 10, JNum 0, JNum 0, JNum 0, JNum 10])])])]"

definition deepBoxDoc :: jsval where
  "deepBoxDoc =
     JObj [(''root'', JObj [(''boundingVolume'',
        JObj [(''box'', JArr [JNum 200000, JNum 0, JNum (- 6000), JNum 10, JNum 0, JNum 0,
                              JNum 0, JNum 10, JNum 0, JNum 0, JNum 0, JNum 10])])])]"

definition halfTurnDoc :: jsval where
  "halfTurnDoc =
     JObj [(''root'', JObj [
        (''transform'', JArr [JNum (- 1), JNum 0, JNum 0, JNum 0,
                              JNum 0, JNum (- 1), JNum 0, JNum 0,
                              JNum 0, JNum 0, JNum 1, JNum 0,
                              JNum 4000000, JNum 3000000, JNum 3000000, JNum 1]),
        (''boundingVolume'',
           JObj [(''box'', JArr [JNum 0, JNum 0, JNum 0, JNum 10, JNum 0, JNum 0,
                                 JNum 0, JNum 10, JNum 0, JNum 0, JNum 0, JNum 10])])])]"

text \<open>Two boxes and a drawing context for the examples.\<close>

definition sampleBox :: range3d where
  "sampleBox = \<lparr>low = \<lparr>px = 0, py = 0, pz = 0\<rparr>, high = \<lparr>px = 1, py = 1, pz = 1\<rparr>\<rparr>"

definition otherBox :: range3d where
  "otherBox = \<lparr>low = \<lparr>px = 5, py = 5, pz = 5\<rparr>, high = \<lparr>px = 9, py = 9, pz = 9\<rparr>\<rparr>"

definition spatialContext :: decorateContext where
  "spatialContext = \<lparr>isSpatialView = True, backgroundColor = Black\<rparr>"

section \<open>The singleton invariant of the range decorator\<close>

lemma singleton_inv_init: "singleton_inv initialWorld"
  by (simp add: singleton_inv_def initialWorld_def)

lemma new_RangeDecoration_fresh:
  assumes "viewManagerDecorators w = []"
  shows "new_RangeDecoration rng w =
           (Inr (nextRef w),
            w\<lparr>nextRef := Suc (nextRef w),
              decorator_static := Some (nextRef w),
              objects := (objects w)(nextRef w \<mapsto>
                 \<lparr>extents_field = rng, removeDecorationListener = Some (nextRef w)\<rparr>),
              viewManagerDecorators := [nextRef w]\<rparr>)"
  using assms
  by (simp add: new_RangeDecoration_def updateDecorationListener_def addDecorator_def Let_def)

lemma singleton_inv_getOrCreate:
  assumes "singleton_inv w"
  shows "singleton_inv (snd (getOrCreate rng w))"
proof (cases "decorator_static w")
  case None
  with assms have "viewManagerDecorators w = []"
    by (simp add: singleton_inv_def)
  with None show ?thesis
    by (simp add: getOrCreate_def new_RangeDecoration_fresh singleton_inv_def)
next
  case (Some d)
  with assms show ?thesis
    by (simp add: getOrCreate_def)
qed

lemma dispose_active:
  assumes "singleton_inv w" and "decorator_static w = Some d"
  shows "decorator_static (snd (dispose w)) = None \<and> viewManagerDecorators (snd (dispose w)) = []"
proof -
  from assms obtain obj where
    ds: "viewManagerDecorators w = [d]" and
    ob: "objects w d = Some obj" and
    rm: "removeDecorationListener obj = Some d"
    by (auto simp: singleton_inv_def split: option.splits)
  show ?thesis
    by (simp add: dispose_def stop_def updateDecorationListener_def dropDecorator_def
        assms(2) ds ob rm)
qed

lemma dispose_inactive:
  assumes "singleton_inv w" and "decorator_static w = None"
  shows "decorator_static (snd (dispose w)) = None \<and> viewManagerDecorators (snd (dispose w)) = []"
  using assms by (simp add: dispose_def singleton_inv_def)

lemma dispose_clears:
  assumes "singleton_inv w"
  shows "decorator_static (snd (dispose w)) = None \<and> viewManagerDecorators (snd (dispose w)) = []"
  using assms dispose_active dispose_inactive by (cases "decorator_static w") blast+

lemma singleton_inv_dispose:
  assumes "singleton_inv w"
  shows "singleton_inv (snd (dispose w))"
  using dispose_clears [OF assms] by (simp add: singleton_inv_def)

lemma singleton_inv_updateExtents:
  assumes "singleton_inv w"
  shows "singleton_inv (snd (updateExtents d rng w))"
  using assms
  by (auto simp: updateExtents_def singleton_inv_def split: option.splits)

lemma reachable_singleton_inv: "reachable w \<Longrightarrow> singleton_inv w"
proof (induction rule: reachable.induct)
  case reach_init
  show ?case by (rule singleton_inv_init)
next
  case (reach_getOrCreate w rng)
  then show ?case by (simp add: singleton_inv_getOrCreate)
next
  case (reach_dispose w)
  then show ?case by (simp add: singleton_inv_dispose)
next
  case (reach_updateExtents w d rng)
  then show ?case by (simp add: singleton_inv_updateExtents)
qed

lemma dispose_returns:
  assumes "singleton_inv w"
  shows "fst (dispose w) = Inr ()"
proof (cases "decorator_static w")
  case None
  then show ?thesis by (simp add: dispose_def)
next
  case (Some d)
  with assms obtain obj where "objects w d = Some obj" and "removeDecorationListener obj = Some d"
    by (auto simp: singleton_inv_def split: option.splits)
  with Some show ?thesis
    by (simp add: dispose_def stop_def updateDecorationListener_def)
qed

lemma redraw_unregistered: "viewManagerDecorators w = [] \<Longrightarrow> redraw context w = []"
  by (simp add: redraw_def)

section \<open>Properties of the range decorator\<close>

text \<open>
  C7. Two calls of \<open>RangeDecoration.getOrCreate\<close> in a row, with no \<open>dispose\<close> between
  them, return the same instance, and the second call changes nothing: the state after it
  is the state before it, so the extents stored by the first call stay.
\<close>

theorem getOrCreate_twice_same_instance:
  assumes "reachable w"
  shows "\<exists>a w1. getOrCreate r1 w = (Inr a, w1) \<and> getOrCreate r2 w1 = (Inr a, w1)"
proof (cases "decorator_static w")
  case None
  have "singleton_inv w"
    using assms by (rule reachable_singleton_inv)
  with None have "viewManagerDecorators w = []"
    by (simp add: singleton_inv_def)
  then have "getOrCreate r1 w = new_RangeDecoration r1 w \<and>
             decorator_static (snd (new_RangeDecoration r1 w)) = Some (nextRef w) \<and>
             fst (new_RangeDecoration r1 w) = Inr (nextRef w)"
    using None by (simp add: getOrCreate_def new_RangeDecoration_fresh)
  then have "getOrCreate r1 w = (Inr (nextRef w), snd (new_RangeDecoration r1 w)) \<and>
             getOrCreate r2 (snd (new_RangeDecoration r1 w)) =
               (Inr (nextRef w), snd (new_RangeDecoration r1 w))"
    by (simp add: getOrCreate_def prod_eq_iff)
  then show ?thesis by blast
next
  case (Some d)
  then have "getOrCreate r1 w = (Inr d, w) \<and> getOrCreate r2 w = (Inr d, w)"
    by (simp add: getOrCreate_def)
  then show ?thesis by blast
qed

theorem getOrCreate_twice_same_instance_witness:
  "reachable initialWorld \<and>
   (\<exists>a w1. getOrCreate sampleBox initialWorld = (Inr a, w1) \<and>
            getOrCreate otherBox w1 = (Inr a, w1) \<and>
            map_option extents_field (objects w1 a) = Some sampleBox)"
proof -
  have r: "reachable initialWorld" by (rule reach_init)
  obtain a w1 where
    one: "getOrCreate sampleBox initialWorld = (Inr a, w1)" and
    two: "getOrCreate otherBox w1 = (Inr a, w1)"
    using getOrCreate_twice_same_instance [OF r, of sampleBox otherBox] by blast
  have "getOrCreate sampleBox initialWorld =
          (Inr 0, snd (new_RangeDecoration sampleBox initialWorld))"
    by (simp add: getOrCreate_def initialWorld_def new_RangeDecoration_fresh)
  with one have "a = 0" and "w1 = snd (new_RangeDecoration sampleBox initialWorld)"
    by simp_all
  then have "map_option extents_field (objects w1 a) = Some sampleBox"
    by (simp add: initialWorld_def new_RangeDecoration_fresh)
  with r one two show ?thesis by blast
qed

text \<open>
  C8. In every state the application reaches, \<open>RangeDecoration.dispose()\<close> returns,
  \<open>RangeDecoration.isActive\<close> is false afterwards, and a redraw request of the host then
  produces no decoration: no decorator is registered any more.
\<close>

theorem dispose_deactivates:
  assumes "reachable w"
  shows "fst (dispose w) = Inr () \<and>
         \<not> isActive (snd (dispose w)) \<and>
         viewManagerDecorators (snd (dispose w)) = [] \<and>
         redraw context (snd (dispose w)) = []"
proof -
  have inv: "singleton_inv w"
    using assms by (rule reachable_singleton_inv)
  have "decorator_static (snd (dispose w)) = None" and un: "viewManagerDecorators (snd (dispose w)) = []"
    using dispose_clears [OF inv] by simp_all
  then show ?thesis
    by (simp add: isActive_def dispose_returns [OF inv] redraw_unregistered)
qed

theorem dispose_deactivates_witness:
  "reachable (snd (getOrCreate sampleBox initialWorld)) \<and>
   isActive (snd (getOrCreate sampleBox initialWorld)) \<and>
   length (redraw spatialContext (snd (getOrCreate sampleBox initialWorld))) = 2 \<and>
   \<not> isActive (snd (dispose (snd (getOrCreate sampleBox initialWorld)))) \<and>
   redraw spatialContext (snd (dispose (snd (getOrCreate sampleBox initialWorld)))) = []"
proof -
  have r: "reachable (snd (getOrCreate sampleBox initialWorld))"
    by (rule reach_getOrCreate [OF reach_init])
  have g: "getOrCreate sampleBox initialWorld = new_RangeDecoration sampleBox initialWorld"
    by (simp add: getOrCreate_def initialWorld_def)
  have "isActive (snd (getOrCreate sampleBox initialWorld))"
    unfolding g by (simp add: isActive_def initialWorld_def new_RangeDecoration_fresh)
  moreover have "length (redraw spatialContext (snd (getOrCreate sampleBox initialWorld))) = 2"
    unfolding g
    by (simp add: initialWorld_def new_RangeDecoration_fresh redraw_def decorate_def
        spatialContext_def Let_def)
  ultimately show ?thesis
    using r dispose_deactivates [OF r, of spatialContext] by simp
qed

section \<open>Properties of the reality-data manager\<close>

lemma parseRootDocument_transformForm:
  assumes "transformForm rootDoc rootObj bv"
  shows "parseRootDocument l rootDoc s =
           (case transformBranch l rootObj bv of
              Inl ex \<Rightarrow> (Inl ex, s)
            | Inr (loc, worldRange) \<Rightarrow>
                (Inr (Some \<lparr>location = Some loc, extents = Some worldRange\<rparr>), s))"
  using assms by (auto simp: transformForm_def parseRootDocument_def)

text \<open>
  C4. For a document of the transform form whose transform has the identity matrix and whose
  bounding-volume centre is less than 100 km from the centre of the Earth, or has a derived
  cartographic height below -5000 m, \<open>parseRootDocument\<close> returns the anchor at the centre
  of the Earth with yaw, pitch and roll zero, whatever the bounding volume is.
\<close>

theorem identity_transform_anchors_at_earth_center:
  assumes "transformForm rootDoc rootObj bv"
    and "isIdentity l (matrix (worldToEcefTransform l rootObj))"
    and "rangeFromBoundingVolume l bv = Some rng"
    and "magnitude l (rangeCenter l rng) < 100000 \<or>
         (\<exists>c. fromEcef l (multiplyPoint3d l (worldToEcefTransform l rootObj) (rangeCenter l rng)) = Some c \<and>
              height c < - 5000)"
  shows "parseRootDocument l rootDoc s =
           (Inr (Some \<lparr>location =
                          Some (Ecef \<lparr>origin = \<lparr>px = 0, py = 0, pz = 0\<rparr>,
                                      orientation = \<lparr>yaw = 0, pitch = 0, roll = 0\<rparr>,
                                      cartographicOrigin = None, xVector = None, yVector = None\<rparr>),
                        extents =
                          Some (extendRange l (createNull l)
                                  (rangeFromJSON l (multiplyRange l (worldToEcefTransform l rootObj) rng)))\<rparr>),
            s)"
proof -
  have "transformBranch l rootObj bv =
          Inr (Ecef centerOfEarth,
               extendRange l (createNull l)
                 (rangeFromJSON l (multiplyRange l (worldToEcefTransform l rootObj) rng)))"
    using assms(2,3,4) by (auto simp: transformBranch_def Let_def)
  then show ?thesis
    by (simp add: parseRootDocument_transformForm [OF assms(1)] centerOfEarth_def)
qed

theorem identity_transform_anchors_at_earth_center_witness:
  "fst (parseRootDocument flatLib boxDoc freshState) =
     Inr (Some \<lparr>location = Some (Ecef centerOfEarth),
                extents = Some \<lparr>low = \<lparr>px = - 10, py = - 10, pz = - 10\<rparr>,
                                high = \<lparr>px = 10, py = 10, pz = 10\<rparr>\<rparr>\<rparr>) \<and>
   fst (parseRootDocument flatLib deepBoxDoc freshState) =
     Inr (Some \<lparr>location = Some (Ecef centerOfEarth),
                extents = Some \<lparr>low = \<lparr>px = 199990, py = - 10, pz = - 6010\<rparr>,
                                high = \<lparr>px = 200010, py = 10, pz = - 5990\<rparr>\<rparr>\<rparr>)"
proof -
  let ?bv = "JObj [(''box'', JArr [JNum 0, JNum 0, JNum 0, JNum 10, JNum 0, JNum 0,
                                   JNum 0, JNum 10, JNum 0, JNum 0, JNum 0, JNum 10])]"
  let ?root = "JObj [(''boundingVolume'', ?bv)]"
  let ?rng = "\<lparr>low = \<lparr>px = - 10, py = - 10, pz = - 10\<rparr>, high = \<lparr>px = 10, py = 10, pz = 10\<rparr>\<rparr>"
  have 1: "transformForm boxDoc ?root ?bv"
    by (simp add: transformForm_def boxDoc_def)
  have 2: "isIdentity flatLib (matrix (worldToEcefTransform flatLib ?root))"
    by (simp add: worldToEcefTransform_def flatLib_def numbersOf_def)
  have 3: "rangeFromBoundingVolume flatLib ?bv = Some ?rng"
    by (simp add: flatLib_def numbersOf_def)
  have 4: "magnitude flatLib (rangeCenter flatLib ?rng) < 100000 \<or>
         (\<exists>c. fromEcef flatLib (multiplyPoint3d flatLib (worldToEcefTransform flatLib ?root)
                 (rangeCenter flatLib ?rng)) = Some c \<and> height c < - 5000)"
    by (simp add: flatLib_def)
  have near: "fst (parseRootDocument flatLib boxDoc freshState) =
     Inr (Some \<lparr>location = Some (Ecef centerOfEarth), extents = Some ?rng\<rparr>)"
    using identity_transform_anchors_at_earth_center [OF 1 2 3 4, of freshState]
    by (simp add: centerOfEarth_def worldToEcefTransform_def flatLib_def numbersOf_def
        nullRange_def addPoint_def)
  let ?bv' = "JObj [(''box'', JArr [JNum 200000, JNum 0, JNum (- 6000), JNum 10, JNum 0, JNum 0,
                                    JNum 0, JNum 10, JNum 0, JNum 0, JNum 0, JNum 10])]"
  let ?root' = "JObj [(''boundingVolume'', ?bv')]"
  let ?rng' = "\<lparr>low = \<lparr>px = 199990, py = - 10, pz = - 6010\<rparr>,
                high = \<lparr>px = 200010, py = 10, pz = - 5990\<rparr>\<rparr>"
  have 5: "transformForm deepBoxDoc ?root' ?bv'"
    by (simp add: transformForm_def deepBoxDoc_def)
  have 6: "isIdentity flatLib (matrix (worldToEcefTransform flatLib ?root'))"
    by (simp add: worldToEcefTransform_def flatLib_def numbersOf_def)
  have 7: "rangeFromBoundingVolume flatLib ?bv' = Some ?rng'"
    by (simp add: flatLib_def numbersOf_def)
  have far: "\<not> magnitude flatLib (rangeCenter flatLib ?rng') < 100000"
    by (simp add: flatLib_def)
  have "fromEcef flatLib (multiplyPoint3d flatLib (worldToEcefTransform flatLib ?root')
                 (rangeCenter flatLib ?rng')) =
          Some \<lparr>longitude = 200000, latitude = 0, height = - 6000\<rparr>"
    by (simp add: worldToEcefTransform_def flatLib_def numbersOf_def addPoint_def)
  then have 8: "magnitude flatLib (rangeCenter flatLib ?rng') < 100000 \<or>
         (\<exists>c. fromEcef flatLib (multiplyPoint3d flatLib (worldToEcefTransform flatLib ?root')
                 (rangeCenter flatLib ?rng')) = Some c \<and> height c < - 5000)"
    by simp
  have deep: "fst (parseRootDocument flatLib deepBoxDoc freshState) =
     Inr (Some \<lparr>location = Some (Ecef centerOfEarth), extents = Some ?rng'\<rparr>)"
    using identity_transform_anchors_at_earth_center [OF 5 6 7 8, of freshState]
    by (simp add: centerOfEarth_def worldToEcefTransform_def flatLib_def numbersOf_def
        nullRange_def addPoint_def)
  from near deep show ?thesis by simp
qed

text \<open>
  C5. For a document of the transform form whose transform has a matrix that is not the
  identity and from which the library extracts yaw, pitch and roll, \<open>parseRootDocument\<close>
  returns as anchor the ECEF location built from that transform: its orientation is the
  angles and its origin the translated origin that \<open>tryFromTransform\<close> reads off the
  transform, its x and y vectors are the first two columns of the matrix. The extents are
  the range in ECEF moved back by the inverse of the anchor's transform.
\<close>

theorem rotated_transform_anchors_at_transform:
  assumes "transformForm rootDoc rootObj bv"
    and "t = worldToEcefTransform l rootObj"
    and "\<not> isIdentity l (matrix t)"
    and "tryFromTransform l t = Some \<lparr>propsOrigin = translated, propsAngles = Some angles\<rparr>"
    and "rangeFromBoundingVolume l bv = Some rng"
    and "anchor = \<lparr>origin = translated, orientation = angles, cartographicOrigin = None,
                   xVector = Some (columnX l (matrix t)), yVector = Some (columnY l (matrix t))\<rparr>"
    and "transformInverse l (getTransform l anchor) = Some ecefToWorld"
  shows "parseRootDocument l rootDoc s =
           (Inr (Some \<lparr>location = Some (Ecef anchor),
                        extents =
                          Some (extendRange l (createNull l)
                                  (rangeFromJSON l (multiplyRange l ecefToWorld (multiplyRange l t rng))))\<rparr>),
            s)"
proof -
  have "transformBranch l rootObj bv =
          Inr (Ecef anchor,
               extendRange l (createNull l)
                 (rangeFromJSON l (multiplyRange l ecefToWorld (multiplyRange l t rng))))"
    using assms(3,4,5,7) unfolding assms(6) assms(2)
    by (simp add: transformBranch_def Let_def)
  then show ?thesis
    by (simp add: parseRootDocument_transformForm [OF assms(1)])
qed

theorem rotated_transform_anchors_at_transform_witness:
  "fst (parseRootDocument flatLib halfTurnDoc freshState) =
     Inr (Some \<lparr>location =
                  Some (Ecef \<lparr>origin = \<lparr>px = 4000000, py = 3000000, pz = 3000000\<rparr>,
                              orientation = \<lparr>yaw = pi, pitch = 0, roll = 0\<rparr>,
                              cartographicOrigin = None,
                              xVector = Some \<lparr>px = - 1, py = 0, pz = 0\<rparr>,
                              yVector = Some \<lparr>px = 0, py = - 1, pz = 0\<rparr>\<rparr>),
                extents = Some \<lparr>low = \<lparr>px = - 10, py = - 10, pz = - 10\<rparr>,
                                high = \<lparr>px = 10, py = 10, pz = 10\<rparr>\<rparr>\<rparr>)"
proof -
  let ?bv = "JObj [(''box'', JArr [JNum 0, JNum 0, JNum 0, JNum 10, JNum 0, JNum 0,
                                   JNum 0, JNum 10, JNum 0, JNum 0, JNum 0, JNum 10])]"
  let ?tr = "JArr [JNum (- 1), JNum 0, JNum 0, JNum 0,
                   JNum 0, JNum (- 1), JNum 0, JNum 0,
                   JNum 0, JNum 0, JNum 1, JNum 0,
                   JNum 4000000, JNum 3000000, JNum 3000000, JNum 1]"
  let ?root = "JObj [(''transform'', ?tr), (''boundingVolume'', ?bv)]"
  let ?t = "\<lparr>matrix = halfTurnMatrix, transformOrigin = \<lparr>px = 4000000, py = 3000000, pz = 3000000\<rparr>\<rparr>"
  let ?rng = "\<lparr>low = \<lparr>px = - 10, py = - 10, pz = - 10\<rparr>, high = \<lparr>px = 10, py = 10, pz = 10\<rparr>\<rparr>"
  let ?angles = "\<lparr>yaw = pi, pitch = 0, roll = 0\<rparr>"
  let ?anchor = "\<lparr>origin = transformOrigin ?t, orientation = ?angles, cartographicOrigin = None,
                   xVector = Some (columnX flatLib (matrix ?t)),
                   yVector = Some (columnY flatLib (matrix ?t))\<rparr>"
  let ?inv = "\<lparr>matrix = identityMatrix, transformOrigin = \<lparr>px = - 4000000, py = - 3000000, pz = - 3000000\<rparr>\<rparr>"
  have 1: "transformForm halfTurnDoc ?root ?bv"
    by (simp add: transformForm_def halfTurnDoc_def)
  have 2: "?t = worldToEcefTransform flatLib ?root"
    by (simp add: worldToEcefTransform_def flatLib_def numbersOf_def halfTurnMatrix_def)
  have 3: "\<not> isIdentity flatLib (matrix ?t)"
    by (simp add: flatLib_def halfTurnMatrix_def identityMatrix_def)
  have 4: "tryFromTransform flatLib ?t =
             Some \<lparr>propsOrigin = transformOrigin ?t, propsAngles = Some ?angles\<rparr>"
    by (simp add: flatLib_def halfTurnMatrix_def identityMatrix_def)
  have 5: "rangeFromBoundingVolume flatLib ?bv = Some ?rng"
    by (simp add: flatLib_def numbersOf_def)
  have 7: "transformInverse flatLib (getTransform flatLib ?anchor) = Some ?inv"
    by (simp add: flatLib_def)
  show ?thesis
    using rotated_transform_anchors_at_transform [OF 1 2 3 4 5 refl 7, of freshState]
    by (simp add: flatLib_def halfTurnMatrix_def nullRange_def addPoint_def)
qed

text \<open>
  C10. \<open>getBlankConnection\<close> fills every field for every input: the name is the name of
  the reality data or "Reality Data", the location is the one of the geo-location or the
  cartographic point (0, 0, 0), the extents are those of the geo-location or the null
  range, and the iTwin id is the manager's.
\<close>

theorem getBlankConnection_fields:
  "connectionName (getBlankConnection l m props) =
     (case Option.bind (realityData props) name of None \<Rightarrow> ''Reality Data'' | Some n \<Rightarrow> n) \<and>
   connectionLocation (getBlankConnection l m props) =
     (case Option.bind (geoLocation props) location of
        None \<Rightarrow> Carto \<lparr>longitude = 0, latitude = 0, height = 0\<rparr>
      | Some loc \<Rightarrow> loc) \<and>
   connectionExtents (getBlankConnection l m props) =
     (case Option.bind (geoLocation props) extents of None \<Rightarrow> createNull l | Some x \<Rightarrow> x) \<and>
   connectionITwinId (getBlankConnection l m props) = iTwinId m"
  by (simp add: getBlankConnection_def fromDegrees_def split: option.splits)

theorem getBlankConnection_fields_witness:
  "getBlankConnection flatLib sampleManager \<lparr>realityData = None, geoLocation = None\<rparr> =
     \<lparr>connectionName = ''Reality Data'',
      connectionLocation = Carto \<lparr>longitude = 0, latitude = 0, height = 0\<rparr>,
      connectionExtents = nullRange,
      connectionITwinId = ''itwin-1''\<rparr> \<and>
   connectionLocation (getBlankConnection flatLib sampleManager
      \<lparr>realityData = None,
       geoLocation = Some \<lparr>location = Some (Ecef centerOfEarth), extents = Some sampleBox\<rparr>\<rparr>) =
     Ecef centerOfEarth \<and>
   connectionExtents (getBlankConnection flatLib sampleManager
      \<lparr>realityData = None,
       geoLocation = Some \<lparr>location = Some (Ecef centerOfEarth), extents = Some sampleBox\<rparr>\<rparr>) =
     sampleBox"
  using getBlankConnection_fields [of flatLib sampleManager "\<lparr>realityData = None, geoLocation = None\<rparr>"]
    getBlankConnection_fields [of flatLib sampleManager
      "\<lparr>realityData = None,
        geoLocation = Some \<lparr>location = Some (Ecef centerOfEarth), extents = Some sampleBox\<rparr>\<rparr>"]
  by (simp add: flatLib_def sampleManager_def blankConnectionProps.equality)

lemma realityModelFromOPC_opened:
  assumes "crsEngine s \<or> createOnlineEngine e = None"
    and "getFileLength e url = Inr n"
    and "openFile e \<lparr>fileName = url, fileSize = n, pageSize = 131072, maxPageCount = 128\<rparr> url True =
           Inr reader"
  shows "fst (realityModelFromOPC l e url s) = fromReader l e reader"
  using assms by (auto simp: realityModelFromOPC_def blobFile_def Let_def)

lemma fromReader_noCRS:
  assumes "\<not> truthyString (fileCRS reader)"
  shows "fromReader l e reader =
           Inr (Some \<lparr>location = Some (Ecef centerOfEarth),
                       extents = Some (boundsRange l (fileBounds reader))\<rparr>)"
  using assms by (simp add: fromReader_def Let_def)

lemma fromReader_CRS:
  assumes "fileCRS reader = Some crs" and "crs \<noteq> []"
    and "prepareForArea e crs (fileBounds reader) = None"
    and "prepareForArea e ''4978'' (newOrbitGtBounds e) = None"
    and "ecefRange = boundsRange l (transformBounds e (fileBounds reader) crs ''4978'')"
    and "localXYZToWorld l ecefRange (1 / 2) (1 / 2) (1 / 2) = Some ecefCenter"
    and "fromEcef l ecefCenter = Some c"
    and "anchor = createFromCartographicOrigin l (c\<lparr>height := 0\<rparr>) None"
    and "transformInverse l (getTransform l anchor) = Some ecefToWorld"
  shows "fromReader l e reader =
           Inr (Some \<lparr>location = Some (Ecef anchor),
                       extents = Some (multiplyRange l ecefToWorld ecefRange)\<rparr>)"
  using assms(1,2,3,4,6,7,9) unfolding assms(5) assms(8)
  by (simp add: fromReader_def Let_def truthyString_def)

text \<open>
  C6. \<open>realityModelFromOPC\<close> opens the resource through a page cache of page size
  128 KiB (131072 bytes) and 128 pages. When the reader it gets carries no reference
  system, the anchor is the centre of the Earth with yaw, pitch and roll zero and the
  extents are the bounds of the file. When it carries one, the anchor is the location
  that the library creates from the cartographic centre of the ECEF bounds with its
  height set to zero, and the extents are the ECEF bounds moved by the inverse of the
  anchor's transform.
\<close>

theorem realityModelFromOPC_anchor:
  assumes "crsEngine s \<or> createOnlineEngine e = None"
    and "getFileLength e url = Inr n"
    and "openFile e \<lparr>fileName = url, fileSize = n, pageSize = 128 * 1024, maxPageCount = 128\<rparr> url True =
           Inr reader"
  shows "(\<not> truthyString (fileCRS reader) \<longrightarrow>
            fst (realityModelFromOPC l e url s) =
              Inr (Some \<lparr>location =
                            Some (Ecef \<lparr>origin = \<lparr>px = 0, py = 0, pz = 0\<rparr>,
                                        orientation = \<lparr>yaw = 0, pitch = 0, roll = 0\<rparr>,
                                        cartographicOrigin = None, xVector = None, yVector = None\<rparr>),
                          extents = Some (boundsRange l (fileBounds reader))\<rparr>)) \<and>
         (\<forall>crs ecefRange ecefCenter c anchor ecefToWorld.
            fileCRS reader = Some crs \<and> crs \<noteq> [] \<and>
            prepareForArea e crs (fileBounds reader) = None \<and>
            prepareForArea e ''4978'' (newOrbitGtBounds e) = None \<and>
            ecefRange = boundsRange l (transformBounds e (fileBounds reader) crs ''4978'') \<and>
            localXYZToWorld l ecefRange (1 / 2) (1 / 2) (1 / 2) = Some ecefCenter \<and>
            fromEcef l ecefCenter = Some c \<and>
            anchor = createFromCartographicOrigin l (c\<lparr>height := 0\<rparr>) None \<and>
            transformInverse l (getTransform l anchor) = Some ecefToWorld \<longrightarrow>
            fst (realityModelFromOPC l e url s) =
              Inr (Some \<lparr>location = Some (Ecef anchor),
                          extents = Some (multiplyRange l ecefToWorld ecefRange)\<rparr>))"
proof -
  have opened: "fst (realityModelFromOPC l e url s) = fromReader l e reader"
    using assms by (simp add: realityModelFromOPC_opened)
  show ?thesis
    unfolding opened
    using fromReader_noCRS [of reader l e] fromReader_CRS [of reader _ e _ l]
    by (simp add: centerOfEarth_def)
qed

theorem realityModelFromOPC_anchor_witness:
  "fst (realityModelFromOPC flatLib quietEnv ''https://blob/cloud.opc'' freshState) =
     Inr (Some \<lparr>location = Some (Ecef centerOfEarth),
                extents = Some \<lparr>low = \<lparr>px = 0, py = 0, pz = 0\<rparr>,
                                high = \<lparr>px = 10, py = 20, pz = 30\<rparr>\<rparr>\<rparr>) \<and>
   fst (realityModelFromOPC flatLib crsEnv ''https://blob/cloud.opc'' freshState) =
     Inr (Some \<lparr>location =
                  Some (Ecef \<lparr>origin = \<lparr>px = 5, py = 10, pz = 0\<rparr>,
                              orientation = \<lparr>yaw = 0, pitch = 0, roll = 0\<rparr>,
                              cartographicOrigin = Some \<lparr>longitude = 5, latitude = 10, height = 0\<rparr>,
                              xVector = None, yVector = None\<rparr>),
                extents = Some \<lparr>low = \<lparr>px = - 5, py = - 10, pz = 0\<rparr>,
                                high = \<lparr>px = 5, py = 10, pz = 30\<rparr>\<rparr>\<rparr>)"
proof -
  let ?url = "''https://blob/cloud.opc''"
  let ?quietReader = "\<lparr>fileBounds = sampleBounds, fileCRS = None\<rparr>"
  let ?crsReader = "\<lparr>fileBounds = sampleBounds, fileCRS = Some ''32631''\<rparr>"
  have q1: "crsEngine freshState \<or> createOnlineEngine quietEnv = None"
    by (simp add: quietEnv_def)
  have q2: "getFileLength quietEnv ?url = Inr 4096"
    by (simp add: quietEnv_def)
  have q3: "openFile quietEnv \<lparr>fileName = ?url, fileSize = 4096, pageSize = 128 * 1024, maxPageCount = 128\<rparr>
              ?url True = Inr ?quietReader"
    by (simp add: quietEnv_def)
  have c1: "crsEngine freshState \<or> createOnlineEngine crsEnv = None"
    by (simp add: crsEnv_def quietEnv_def)
  have c2: "getFileLength crsEnv ?url = Inr 4096"
    by (simp add: crsEnv_def quietEnv_def)
  have c3: "openFile crsEnv \<lparr>fileName = ?url, fileSize = 4096, pageSize = 128 * 1024, maxPageCount = 128\<rparr>
              ?url True = Inr ?crsReader"
    by (simp add: crsEnv_def quietEnv_def)
  have first: "fst (realityModelFromOPC flatLib quietEnv ?url freshState) =
     Inr (Some \<lparr>location = Some (Ecef centerOfEarth),
                extents = Some \<lparr>low = \<lparr>px = 0, py = 0, pz = 0\<rparr>,
                                high = \<lparr>px = 10, py = 20, pz = 30\<rparr>\<rparr>\<rparr>)"
    using realityModelFromOPC_anchor [OF q1 q2 q3, of flatLib]
    by (simp add: truthyString_def centerOfEarth_def boundsRange_def flatLib_def sampleBounds_def)
  let ?ecefRange = "\<lparr>low = \<lparr>px = 0, py = 0, pz = 0\<rparr>, high = \<lparr>px = 10, py = 20, pz = 30\<rparr>\<rparr>"
  let ?anchor = "\<lparr>origin = \<lparr>px = 5, py = 10, pz = 0\<rparr>,
                  orientation = \<lparr>yaw = 0, pitch = 0, roll = 0\<rparr>,
                  cartographicOrigin = Some \<lparr>longitude = 5, latitude = 10, height = 0\<rparr>,
                  xVector = None, yVector = None\<rparr>"
  let ?inv = "\<lparr>matrix = identityMatrix, transformOrigin = \<lparr>px = - 5, py = - 10, pz = 0\<rparr>\<rparr>"
  have hyp: "fileCRS ?crsReader = Some ''32631'' \<and> ''32631'' \<noteq> [] \<and>
            prepareForArea crsEnv ''32631'' (fileBounds ?crsReader) = None \<and>
            prepareForArea crsEnv ''4978'' (newOrbitGtBounds crsEnv) = None \<and>
            ?ecefRange = boundsRange flatLib (transformBounds crsEnv (fileBounds ?crsReader) ''32631'' ''4978'') \<and>
            localXYZToWorld flatLib ?ecefRange (1 / 2) (1 / 2) (1 / 2) = Some \<lparr>px = 5, py = 10, pz = 15\<rparr> \<and>
            fromEcef flatLib \<lparr>px = 5, py = 10, pz = 15\<rparr> = Some \<lparr>longitude = 5, latitude = 10, height = 15\<rparr> \<and>
            ?anchor = createFromCartographicOrigin flatLib (\<lparr>longitude = 5, latitude = 10, height = 15\<rparr>\<lparr>height := 0\<rparr>) None \<and>
            transformInverse flatLib (getTransform flatLib ?anchor) = Some ?inv"
    by (simp add: crsEnv_def quietEnv_def boundsRange_def flatLib_def sampleBounds_def)
  have "fst (realityModelFromOPC flatLib crsEnv ?url freshState) =
              Inr (Some \<lparr>location = Some (Ecef ?anchor),
                          extents = Some (multiplyRange flatLib ?inv ?ecefRange)\<rparr>)"
    using realityModelFromOPC_anchor [OF c1 c2 c3, of flatLib] hyp by blast
  then have second: "fst (realityModelFromOPC flatLib crsEnv ?url freshState) =
     Inr (Some \<lparr>location = Some (Ecef ?anchor),
                extents = Some \<lparr>low = \<lparr>px = - 5, py = - 10, pz = 0\<rparr>,
                                high = \<lparr>px = 5, py = 10, pz = 30\<rparr>\<rparr>\<rparr>)"
    by (simp add: flatLib_def addPoint_def)
  from first second show ?thesis by simp
qed

lemma upper_names:
  "toUpperCase ''OPC'' = ''OPC''"
  "toUpperCase ''Cesium3DTiles'' = ''CESIUM3DTILES''"
  "toUpperCase ''PNTS'' = ''PNTS''"
  "toUpperCase ''RealityMesh3DTiles'' = ''REALITYMESH3DTILES''"
  "toUpperCase ''Terrain3DTiles'' = ''TERRAIN3DTILES''"
  by (simp_all add: toUpperCase_def toUpperChar_def)

text \<open>
  C9. When the declared type of a record is, up to the case of letters, none of OPC,
  Cesium3DTiles, PNTS, RealityMesh3DTiles and Terrain3DTiles (or no type is declared), and
  the URL of the root document was obtained, \<open>getRealityDataGeoLocation\<close> returns
  \<open>undefined\<close> and shows exactly one notification, "NotSupported".
\<close>

theorem unsupported_type_not_supported:
  assumes "getBlobUrl e rd accessToken (rootDocName rd) = Inr url"
    and "\<forall>t. rdType rd = Some t \<longrightarrow> (\<forall>n \<in> set supportedTypeNames. \<not> equalsIgnoreCase t n)"
  shows "getRealityDataGeoLocation l e accessToken rd s =
           (Inr None, s\<lparr>toasts := toasts s @ [''NotSupported'']\<rparr>)"
proof -
  have "\<not> typeIs rd ''OPC''" "\<not> typeIs rd ''CESIUM3DTILES''" "\<not> typeIs rd ''PNTS''"
    "\<not> typeIs rd ''REALITYMESH3DTILES''" "\<not> typeIs rd ''TERRAIN3DTILES''"
    using assms(2)
    by (auto simp: typeIs_def supportedTypeNames_def equalsIgnoreCase_def upper_names
        split: option.splits)
  then show ?thesis
    using assms(1) by (simp add: getRealityDataGeoLocation_def toaster_negative_def)
qed

theorem unsupported_type_not_supported_witness:
  "getRealityDataGeoLocation flatLib quietEnv ''token'' (sampleRecord\<lparr>rdType := Some ''Las''\<rparr>) freshState =
     (Inr None, \<lparr>toasts = [''NotSupported''], downloaderInstance = False, crsEngine = False\<rparr>) \<and>
   getRealityDataGeoLocation flatLib quietEnv ''token'' (sampleRecord\<lparr>rdType := None\<rparr>) freshState =
     (Inr None, \<lparr>toasts = [''NotSupported''], downloaderInstance = False, crsEngine = False\<rparr>)"
proof -
  let ?las = "sampleRecord\<lparr>rdType := Some ''Las''\<rparr>"
  let ?none = "sampleRecord\<lparr>rdType := None\<rparr>"
  have u1: "getBlobUrl quietEnv ?las ''token'' (rootDocName ?las) = Inr ''https://blob/tileset.json''"
    by (simp add: quietEnv_def rootDocName_def sampleRecord_def)
  have u2: "getBlobUrl quietEnv ?none ''token'' (rootDocName ?none) = Inr ''https://blob/tileset.json''"
    by (simp add: quietEnv_def rootDocName_def sampleRecord_def)
  have t1: "\<forall>t. rdType ?las = Some t \<longrightarrow> (\<forall>n \<in> set supportedTypeNames. \<not> equalsIgnoreCase t n)"
    by (simp add: supportedTypeNames_def equalsIgnoreCase_def toUpperCase_def toUpperChar_def)
  have t2: "\<forall>t. rdType ?none = Some t \<longrightarrow> (\<forall>n \<in> set supportedTypeNames. \<not> equalsIgnoreCase t n)"
    by simp
  show ?thesis
    using unsupported_type_not_supported [OF u1 t1, of flatLib freshState]
      unsupported_type_not_supported [OF u2 t2, of flatLib freshState]
    by (simp add: freshState_def)
qed

lemma fetchRealityData_fault:
  assumes "getRealityData e accessToken (iTwinId m) (realityDataId m) = Inl error"
  shows "fetchRealityData e m accessToken s =
           (None,
            s\<lparr>toasts := toasts s @
                 (if \<not> hasOwnErrorNumber error then [''SomethingWentWrongUnexpected'']
                  else if errorNumber error = JNum 401 then [''Unauthorized'']
                  else if errorNumber error = JNum 404 then [''NotFound'']
                  else if errorNumber error = JNum 422 then [''SomethingWentWrong'']
                  else [])\<rparr>)"
  using assms by (simp add: fetchRealityData_def toaster_negative_def Let_def)

lemma getRealityDataProps_fault:
  assumes "getRealityData e accessToken (iTwinId m) (realityDataId m) = Inl error"
  shows "fst (getRealityDataProps l e m accessToken s) = Inr \<lparr>realityData = None, geoLocation = None\<rparr>"
  using assms by (simp add: getRealityDataProps_def fetchRealityData_fault)

lemma fetchRealityData_404:
  "getRealityDataProps l (rejecting (JObj [(''errorNumber'', JNum 404)])) m accessToken s =
     (Inr \<lparr>realityData = None, geoLocation = None\<rparr>, s\<lparr>toasts := toasts s @ [''NotFound'']\<rparr>)"
  by (simp add: getRealityDataProps_def fetchRealityData_def rejecting_def toaster_negative_def
      hasOwnErrorNumber_def errorNumber_def)

text \<open>
  C3. The claim has every fault of the metadata fetch classified and answered with exactly
  one notification ("anything else: unexpected"). The code does so for the error numbers
  401, 404 and 422 and for a fault without an error number (\<open>fetchRealityData_fault\<close>,
  \<open>fetchRealityData_404\<close>); a fault that carries any other error number, here 500, gets
  no notification at all: \<open>fetchRealityData\<close> returns \<open>undefined\<close>,
  \<open>getRealityDataProps\<close> the empty result, and the notifications are the ones there were.
\<close>

theorem fetchRealityData_other_code_silent:
  "fetchRealityData (rejecting (JObj [(''errorNumber'', JNum 500)])) m accessToken s = (None, s) \<and>
   getRealityDataProps l (rejecting (JObj [(''errorNumber'', JNum 500)])) m accessToken s =
     (Inr \<lparr>realityData = None, geoLocation = None\<rparr>, s)"
  by (simp add: getRealityDataProps_def fetchRealityData_def rejecting_def
      hasOwnErrorNumber_def errorNumber_def)

text \<open>The faults that the geo-location derivation guards: one notification, no result.\<close>

lemma parseRootDocument_missing_root:
  assumes "member rootDoc ''root'' = Inr JUndefined"
  shows "parseRootDocument l rootDoc s =
           (Inr None, s\<lparr>toasts := toasts s @ [''RootDocMissingRootProperty'']\<rparr>)"
  using assms by (simp add: parseRootDocument_def toaster_negative_def)

lemma parseRootDocument_region_not_array:
  assumes "member rootDoc ''root'' = Inr rootObj" and "rootObj \<noteq> JUndefined"
    and "member rootObj ''boundingVolume'' = Inr bv"
    and "member bv ''region'' = Inr regionValue"
    and "truthy regionValue" and "asArray regionValue = None"
  shows "parseRootDocument l rootDoc s =
           (Inr None, s\<lparr>toasts := toasts s @ [''RootDocMissingRegionProperty'']\<rparr>)"
  using assms by (simp add: parseRootDocument_def toaster_negative_def)

lemma getRealityDataGeoLocation_download_not_ok:
  assumes "getBlobUrl e rd accessToken (rootDocName rd) = Inr url"
    and "\<not> typeIs rd ''OPC''"
    and "typeIs rd ''CESIUM3DTILES'' \<or> typeIs rd ''PNTS'' \<or>
         typeIs rd ''REALITYMESH3DTILES'' \<or> typeIs rd ''TERRAIN3DTILES''"
    and "fetch e url = Inr rootDocResponse" and "\<not> ok rootDocResponse"
  shows "getRealityDataGeoLocation l e accessToken rd s =
           (Inr None, s\<lparr>toasts := toasts s @ [''RootDocumentError'']\<rparr>)"
  using assms by (simp add: getRealityDataGeoLocation_def toaster_negative_def)

text \<open>
  C2. The claim has no fault of the geo-location derivation leave the manager as a thrown
  error. A root document with a root object that has no bounding volume makes
  \<open>parseRootDocument\<close> read \<open>region\<close> of \<open>undefined\<close>: the \<open>TypeError\<close> leaves
  \<open>parseRootDocument\<close>, \<open>getRealityDataGeoLocation\<close> and \<open>getRealityDataProps\<close> as a
  thrown error, and no notification is shown. (The faults that are guarded are the three
  lemmas above and the unsupported type.)
\<close>

theorem missing_boundingVolume_throws:
  "parseRootDocument l noBoundingVolumeDoc s = (Inl TypeError, s) \<and>
   getRealityDataGeoLocation l (serving noBoundingVolumeDoc) accessToken sampleRecord s =
     (Inl TypeError, s) \<and>
   getRealityDataProps l (serving noBoundingVolumeDoc) m accessToken s = (Inl TypeError, s)"
proof -
  have p: "parseRootDocument l noBoundingVolumeDoc s = (Inl TypeError, s)"
    by (simp add: parseRootDocument_def noBoundingVolumeDoc_def)
  have t: "typeIs sampleRecord ''CESIUM3DTILES''" "\<not> typeIs sampleRecord ''OPC''"
    by (simp_all add: typeIs_def sampleRecord_def toUpperCase_def toUpperChar_def)
  have g: "getRealityDataGeoLocation l (serving noBoundingVolumeDoc) accessToken sampleRecord s =
             (Inl TypeError, s)"
    by (simp add: getRealityDataGeoLocation_def t p serving_def quietEnv_def)
  have f: "fetchRealityData (serving noBoundingVolumeDoc) m accessToken s = (Some sampleRecord, s)"
    by (simp add: fetchRealityData_def serving_def quietEnv_def)
  have b: "getBlobUrl (serving noBoundingVolumeDoc) sampleRecord accessToken [] = Inr ''https://blob/''"
    by (simp add: serving_def quietEnv_def)
  have "getRealityDataProps l (serving noBoundingVolumeDoc) m accessToken s = (Inl TypeError, s)"
    by (simp add: getRealityDataProps_def f g b)
  with p g show ?thesis by simp
qed

lemma regionCartoCenter_midpoint:
  "regionCartoCenter l [JNum a, JNum b, JNum c, JNum d, JNum lo, JNum hi] =
     \<lparr>longitude = (a + c) / 2, latitude = (b + d) / 2, height = (lo + hi) / 2\<rparr>"
  by (simp add: regionCartoCenter_def fromRadians_def halfSum_def element_def)

lemma regionBranch_location:
  assumes "regionBranch l region = Inr (loc, worldRange)"
  shows "loc = Carto (regionCartoCenter l region)"
  using assms by (auto simp: regionBranch_def Let_def split: option.splits)

lemma parseRootDocument_region_array:
  assumes "member rootDoc ''root'' = Inr rootObj" and "rootObj \<noteq> JUndefined"
    and "member rootObj ''boundingVolume'' = Inr bv"
    and "member bv ''region'' = Inr (JArr region)"
  shows "parseRootDocument l rootDoc s =
           (case regionBranch l region of Inl ex \<Rightarrow> (Inl ex, s) | Inr _ \<Rightarrow> (Inr None, s))"
  using assms by (simp add: parseRootDocument_def asArray_def)

text \<open>
  C1. The claim has \<open>parseRootDocument\<close> return, for a document that declares a region,
  a \<open>GeoLocation\<close> anchored at the midpoint of the region. For the region document
  \<open>regionDoc\<close> the branch does compute the midpoint anchor (longitude 1, latitude 0.5,
  height 50) and the function then ends without returning it: the result is \<open>undefined\<close>,
  and under no interpretation of the library is it a \<open>GeoLocation\<close>.
\<close>

theorem region_document_returns_undefined:
  "parseRootDocument flatLib regionDoc s = (Inr None, s) \<and>
   (\<exists>worldRange. regionBranch flatLib [JNum 0.5, JNum 0.25, JNum 1.5, JNum 0.75, JNum 0, JNum 100] =
      Inr (Carto \<lparr>longitude = 1, latitude = 0.5, height = 50\<rparr>, worldRange)) \<and>
   (\<forall>l g. fst (parseRootDocument l regionDoc s) \<noteq> Inr (Some g))"
proof -
  have shape: "parseRootDocument l regionDoc s =
      (case regionBranch l [JNum 0.5, JNum 0.25, JNum 1.5, JNum 0.75, JNum 0, JNum 100] of
         Inl ex \<Rightarrow> (Inl ex, s) | Inr _ \<Rightarrow> (Inr None, s))" for l
    by (rule parseRootDocument_region_array [where rootObj = "JObj [(''boundingVolume'',
        JObj [(''region'', JArr [JNum 0.5, JNum 0.25, JNum 1.5, JNum 0.75, JNum 0, JNum 100])])]"
        and bv = "JObj [(''region'', JArr [JNum 0.5, JNum 0.25, JNum 1.5, JNum 0.75, JNum 0, JNum 100])]"])
      (simp_all add: regionDoc_def)
  have branch: "\<exists>worldRange. regionBranch flatLib [JNum 0.5, JNum 0.25, JNum 1.5, JNum 0.75, JNum 0, JNum 100] =
      Inr (Carto \<lparr>longitude = 1, latitude = 0.5, height = 50\<rparr>, worldRange)"
    by (simp add: regionBranch_def regionCartoCenter_midpoint Let_def flatLib_def)
  then have 1: "parseRootDocument flatLib regionDoc s = (Inr None, s)"
    by (auto simp: shape)
  have 3: "fst (parseRootDocument l regionDoc s) \<noteq> Inr (Some g)" for l g
    by (simp add: shape split: sum.splits)
  from 1 branch 3 show ?thesis by blast
qed

end
